theory Spec2Isabelle
  imports Main "HOL-Library.Sublist"
begin

section \<open>The init subcommand of the golang/v3 plugin (pkg/plugins/golang/v3/init.go)\<close>

text \<open>
  The file under verification defines \<open>initSubcommand\<close> with its methods \<open>Validate\<close> and
  \<open>PostScaffold\<close>, and the helper \<open>checkDir\<close>. They call the operating system
  (\<open>os.Getwd\<close>, \<open>filepath.Walk\<close>), collaborators of other packages
  (\<open>util.ValidateGoVersion\<close>, \<open>validation.IsDNS1123Label\<close>, \<open>util.FindCurrentRepo\<close>,
  \<open>util.RunCmd\<close>) and print to standard output. The embedding makes all of that explicit:
  the outside world is a record of what each collaborator answers, and every call and every
  print is appended to a trace, so that the order of effects is a value one can state theorems
  about.
\<close>

subsection \<open>Errors\<close>

text \<open>
  Go errors are values compared by identity. The constructors keep apart the errors that the
  code under verification can tell apart or creates itself:
  \<^item> \<open>SkipDir\<close> is the sentinel \<open>filepath.SkipDir\<close> that \<open>filepath.Walk\<close> compares against;
  \<^item> \<open>ErrorsNew s\<close> is the result of \<open>errors.New(s)\<close>;
  \<^item> \<open>FmtErrorf s\<close> is the result of \<open>fmt.Errorf\<close> whose formatted message is \<open>s\<close>;
  \<^item> \<open>OSError s\<close> is an error returned by a system call (\<open>os.Lstat\<close>, reading a directory,
    \<open>os.Getwd\<close>) or by running an external command, with message \<open>s\<close>;
  \<^item> \<open>NilDeref\<close> stands for the run-time panic of calling a method on a nil \<open>os.FileInfo\<close>.
\<close>

datatype error = SkipDir | ErrorsNew string | FmtErrorf string | OSError string | NilDeref

text \<open>The method \<open>Error()\<close>, which the verb \<open>%v\<close> of \<open>fmt.Errorf\<close> prints.\<close>

fun Error :: "error \<Rightarrow> string" where
  "Error SkipDir = ''skip this directory''"
| "Error (ErrorsNew s) = s"
| "Error (FmtErrorf s) = s"
| "Error (OSError s) = s"
| "Error NilDeref = ''runtime error: invalid memory address or nil pointer dereference''"

subsection \<open>Strings and paths (Go standard library, Unix)\<close>

text \<open>\<open>strings.HasPrefix(s, prefix)\<close>: \<open>len(s) >= len(prefix) && s[0:len(prefix)] == prefix\<close>.\<close>

definition HasPrefix :: "string \<Rightarrow> string \<Rightarrow> bool" where
  "HasPrefix s pre = (length pre \<le> length s \<and> take (length pre) s = pre)"

text \<open>
  \<open>strings.ToLower\<close>. On a string of ASCII bytes only it adds \<open>'a' - 'A'\<close> to every byte in
  \<open>'A'..'Z'\<close> (and returns the string itself when there is none); on any other string it
  returns \<open>strings.Map(unicode.ToLower, s)\<close>, whose Unicode tables are a parameter here.
\<close>

definition isASCII :: "string \<Rightarrow> bool" where
  "isASCII s = list_all (\<lambda>c. (of_char c :: nat) < 128) s"

definition isUpperByte :: "char \<Rightarrow> bool" where
  "isUpperByte c = ((of_char (CHR ''A'') :: nat) \<le> of_char c \<and> (of_char c :: nat) \<le> of_char (CHR ''Z''))"

definition lowerByte :: "char \<Rightarrow> char" where
  "lowerByte c =
     (if isUpperByte c
      then char_of ((of_char c :: nat) + (of_char (CHR ''a'') - of_char (CHR ''A'')))
      else c)"

definition ToLower :: "(string \<Rightarrow> string) \<Rightarrow> string \<Rightarrow> string" where
  "ToLower unicodeMap s =
     (if isASCII s
      then (if \<not> list_ex isUpperByte s then s else map lowerByte s)
      else unicodeMap s)"

text \<open>
  \<open>filepath.Base\<close> with separator \<open>/\<close> and no volume name: the empty path gives \<open>.\<close>; trailing
  slashes are stripped; what follows the last slash is the result, and \<open>/\<close> if that is empty.
\<close>

definition isPathSeparator :: "char \<Rightarrow> bool" where
  "isPathSeparator c = (c = CHR ''/'')"

definition Base :: "string \<Rightarrow> string" where
  "Base path =
     (if path = [] then ''.''
      else
        let stripped = rev (dropWhile isPathSeparator (rev path));
            lastElem = rev (takeWhile (\<lambda>c. \<not> isPathSeparator c) (rev stripped))
        in if lastElem = [] then ''/'' else lastElem)"

text \<open>
  \<open>filepath.Join(dir, name)\<close> for the two shapes the walk produces: below the root \<open>.\<close> the
  cleaned path is the name itself, below any other directory it is \<open>dir/name\<close>.
\<close>

definition Join :: "string \<Rightarrow> string \<Rightarrow> string" where
  "Join dir nm = (if dir = ''.'' then nm else dir @ ''/'' @ nm)"

subsection \<open>The file system seen by \<open>filepath.Walk\<close>\<close>

text \<open>
  What is found at a path:
  \<^item> \<open>File\<close>: \<open>os.Lstat\<close> succeeds and the entry is not a directory;
  \<^item> \<open>Dir es\<close>: a directory whose names can be read; \<open>es\<close> pairs each name with what is found
    there, in the order in which \<open>readDirNames\<close> returns the names (sorted);
  \<^item> \<open>DirUnreadable m\<close>: \<open>os.Lstat\<close> succeeds and reports a directory, reading its names fails
    with message \<open>m\<close>;
  \<^item> \<open>NoStat m\<close>: \<open>os.Lstat\<close> fails with message \<open>m\<close>.
\<close>

datatype fnode =
    File
  | Dir "(string \<times> fnode) list"
  | DirUnreadable string
  | NoStat string

record FileInfo =
  Name :: string
  IsDir :: bool

text \<open>The callback type \<open>filepath.WalkFunc\<close>: path, info (nil when \<open>Lstat\<close> failed), error.\<close>

type_synonym WalkFunc = "string \<Rightarrow> FileInfo option \<Rightarrow> error option \<Rightarrow> error option"

text \<open>\<open>os.Lstat\<close> of an entry; \<open>nm\<close> is the last element of its path, which \<open>Name()\<close> returns.\<close>

fun lstat :: "string \<Rightarrow> fnode \<Rightarrow> error + FileInfo" where
  "lstat nm File = Inr \<lparr>Name = nm, IsDir = False\<rparr>"
| "lstat nm (Dir es) = Inr \<lparr>Name = nm, IsDir = True\<rparr>"
| "lstat nm (DirUnreadable m) = Inr \<lparr>Name = nm, IsDir = True\<rparr>"
| "lstat nm (NoStat m) = Inl (OSError m)"

text \<open>
  \<open>filepath.walk\<close> and the loop over the names of a directory in its body.
  \<^verbatim>\<open>
  func walk(path string, info os.FileInfo, walkFn WalkFunc) error {
      if !info.IsDir() { return walkFn(path, info, nil) }
      names, err := readDirNames(path)
      err1 := walkFn(path, info, err)
      if err != nil || err1 != nil { return err1 }
      for _, name := range names {
          filename := Join(path, name)
          fileInfo, err := lstat(filename)
          if err != nil {
              if err := walkFn(filename, fileInfo, err); err != nil && err != SkipDir { return err }
          } else {
              err = walk(filename, fileInfo, walkFn)
              if err != nil { if !fileInfo.IsDir() || err != SkipDir { return err } }
          }
      }
      return nil
  }
  \<close>
  \<open>walk\<close> is only called where \<open>Lstat\<close> has succeeded; on a \<open>NoStat\<close> entry its \<open>info\<close> would be
  nil and \<open>info.IsDir()\<close> would panic.
\<close>

fun walk :: "WalkFunc \<Rightarrow> string \<Rightarrow> string \<Rightarrow> fnode \<Rightarrow> error option"
  and walkNames :: "WalkFunc \<Rightarrow> string \<Rightarrow> (string \<times> fnode) list \<Rightarrow> error option"
where
  "walk walkFn path nm File = walkFn path (Some \<lparr>Name = nm, IsDir = False\<rparr>) None"
| "walk walkFn path nm (DirUnreadable m) =
     walkFn path (Some \<lparr>Name = nm, IsDir = True\<rparr>) (Some (OSError m))"
| "walk walkFn path nm (Dir es) =
     (case walkFn path (Some \<lparr>Name = nm, IsDir = True\<rparr>) None of
        Some err1 \<Rightarrow> Some err1
      | None \<Rightarrow> walkNames walkFn path es)"
| "walk walkFn path nm (NoStat m) = Some NilDeref"
| "walkNames walkFn path [] = None"
| "walkNames walkFn path ((nm, child) # rest) =
     (let filename = Join path nm in
      case lstat nm child of
        Inl err \<Rightarrow>
          (case walkFn filename None (Some err) of
             Some e \<Rightarrow> if e \<noteq> SkipDir then Some e else walkNames walkFn path rest
           | None \<Rightarrow> walkNames walkFn path rest)
      | Inr fileInfo \<Rightarrow>
          (case walk walkFn filename nm child of
             Some e \<Rightarrow>
               if \<not> IsDir fileInfo \<or> e \<noteq> SkipDir then Some e
               else walkNames walkFn path rest
           | None \<Rightarrow> walkNames walkFn path rest))"

text \<open>
  \<open>filepath.Walk(root, walkFn)\<close>, on the file system \<open>fs\<close> found at \<open>root\<close>:
  \<^verbatim>\<open>
  info, err := os.Lstat(root)
  if err != nil { err = walkFn(root, nil, err) } else { err = walk(root, info, walkFn) }
  if err == SkipDir { return nil }
  return err
  \<close>
\<close>

definition Walk :: "fnode \<Rightarrow> string \<Rightarrow> WalkFunc \<Rightarrow> error option" where
  "Walk fs root walkFn =
     (let err = (case lstat (Base root) fs of
                   Inl e \<Rightarrow> walkFn root None (Some e)
                 | Inr info \<Rightarrow> walk walkFn root (Name info) fs)
      in if err = Some SkipDir then None else err)"

subsection \<open>\<open>checkDir\<close> (init.go, lines 182-197)\<close>

definition notAllowedError :: error where
  \<open>notAllowedError =
     ErrorsNew ''only the go.mod and files with the prefix "(.)" are allowed before the init''\<close>

text \<open>The function literal passed to \<open>filepath.Walk\<close> (lines 184-192).\<close>

fun checkDirFn :: WalkFunc where
  "checkDirFn path info (Some err) = Some err"
| "checkDirFn path (Some info) None =
     (if Name info \<noteq> ''go.mod'' \<and> \<not> HasPrefix (Name info) ''.''
      then Some notAllowedError
      else None)"
| "checkDirFn path None None = Some NilDeref"

definition checkDir :: "fnode \<Rightarrow> error option" where
  "checkDir cwd =
     (case Walk cwd ''.'' checkDirFn of
        Some err \<Rightarrow> Some err
      | None \<Rightarrow> None)"

subsection \<open>The configuration, the subcommand and the outside world\<close>

text \<open>The fields of \<open>config.Config\<close> that init.go reads or binds to flags.\<close>

record Config =
  Domain :: string
  ProjectName :: string
  Repo :: string
  ComponentConfig :: bool
  Layout :: string

text \<open>
  \<open>initSubcommand\<close> (lines 36-48). The field \<open>config\<close> is a pointer in the source: what
  \<open>Validate\<close> writes through it is visible to the caller whatever \<open>Validate\<close> returns, so the
  model returns the subcommand next to the error.
\<close>

record initSubcommand =
  config :: Config
  commandName :: string
  license :: string
  owner :: string
  fetchDeps :: bool
  skipGoVersionCheck :: bool

text \<open>
  The outside world during one run: the answer of every collaborator. The result of
  \<open>validation.IsDNS1123Label\<close> is \<open>None\<close> for nil and \<open>Some r\<close> for a non-nil value that
  \<open>%v\<close> prints as \<open>r\<close>. \<open>ControllerRuntimeVersion\<close> is the constant of package scaffolds.
\<close>

record world =
  ValidateGoVersion :: "error option"
  workingDir :: fnode
  Getwd :: "error + string"
  unicodeToLower :: "string \<Rightarrow> string"
  IsDNS1123Label :: "string \<Rightarrow> string option"
  FindCurrentRepo :: "error + string"
  RunCmd :: "string \<Rightarrow> string \<Rightarrow> string list \<Rightarrow> error option"
  ControllerRuntimeVersion :: string

text \<open>What the subcommand does to the outside world, in the order in which it does it.\<close>

datatype event =
    CallValidateGoVersion
  | CallCheckDir
  | CallGetwd
  | CallIsDNS1123Label string
  | CallFindCurrentRepo
  | CallRunCmd string string "string list"
  | Print string

record run =
  self :: initSubcommand
  trace :: "event list"

definition emit :: "event \<Rightarrow> run \<Rightarrow> run" where
  "emit ev r = r\<lparr>trace := trace r @ [ev]\<rparr>"

definition setProjectName :: "string \<Rightarrow> run \<Rightarrow> run" where
  "setProjectName v r = r\<lparr>self := (self r)\<lparr>config := (config (self r))\<lparr>ProjectName := v\<rparr>\<rparr>\<rparr>"

definition setRepo :: "string \<Rightarrow> run \<Rightarrow> run" where
  "setRepo v r = r\<lparr>self := (self r)\<lparr>config := (config (self r))\<lparr>Repo := v\<rparr>\<rparr>\<rparr>"

subsection \<open>\<open>Validate\<close> (init.go, lines 106-141)\<close>

text \<open>Lines 107-112: the Go version check, unless skipped.\<close>

definition validateGoVersionStep :: "world \<Rightarrow> run \<Rightarrow> error option \<times> run" where
  "validateGoVersionStep w r =
     (if \<not> skipGoVersionCheck (self r)
      then (case ValidateGoVersion w of
              Some err \<Rightarrow> (Some err, emit CallValidateGoVersion r)
            | None \<Rightarrow> (None, emit CallValidateGoVersion r))
      else (None, r))"

text \<open>Lines 114-117: the directory check.\<close>

definition checkDirStep :: "world \<Rightarrow> run \<Rightarrow> error option \<times> run" where
  "checkDirStep w r =
     (case checkDir (workingDir w) of
        Some err \<Rightarrow> (Some err, emit CallCheckDir r)
      | None \<Rightarrow> (None, emit CallCheckDir r))"

text \<open>Lines 119-129: the project name, defaulted from the working directory, then checked.\<close>

definition defaultProjectNameStep :: "world \<Rightarrow> run \<Rightarrow> error option \<times> run" where
  "defaultProjectNameStep w r =
     (if ProjectName (config (self r)) = ''''
      then (case Getwd w of
              Inl err \<Rightarrow>
                (Some (FmtErrorf (''error getting current directory: '' @ Error err)),
                 emit CallGetwd r)
            | Inr dir \<Rightarrow>
                (None, setProjectName (ToLower (unicodeToLower w) (Base dir)) (emit CallGetwd r)))
      else (None, r))"

definition checkProjectNameStep :: "world \<Rightarrow> run \<Rightarrow> error option \<times> run" where
  "checkProjectNameStep w r =
     (let name = ProjectName (config (self r)) in
      case IsDNS1123Label w name of
        Some err \<Rightarrow>
          (Some (FmtErrorf (''project name ('' @ name @ '') is invalid: '' @ err)),
           emit (CallIsDNS1123Label name) r)
      | None \<Rightarrow> (None, emit (CallIsDNS1123Label name) r))"

text \<open>Lines 131-138: the repository, guessed if the flag is not set.\<close>

definition repoStep :: "world \<Rightarrow> run \<Rightarrow> error option \<times> run" where
  "repoStep w r =
     (if Repo (config (self r)) = ''''
      then (case FindCurrentRepo w of
              Inl err \<Rightarrow>
                (Some (FmtErrorf (''error finding current repository: '' @ Error err)),
                 emit CallFindCurrentRepo r)
            | Inr repoPath \<Rightarrow> (None, setRepo repoPath (emit CallFindCurrentRepo r)))
      else (None, r))"

text \<open>The body of \<open>Validate\<close>: the steps in the order of the source, each \<open>return\<close> a branch.\<close>

definition Validate :: "world \<Rightarrow> initSubcommand \<Rightarrow> error option \<times> run" where
  "Validate w p =
     (case validateGoVersionStep w \<lparr>self = p, trace = []\<rparr> of
        (Some err, r) \<Rightarrow> (Some err, r)
      | (None, r) \<Rightarrow>
     (case checkDirStep w r of
        (Some err, r) \<Rightarrow> (Some err, r)
      | (None, r) \<Rightarrow>
     (case defaultProjectNameStep w r of
        (Some err, r) \<Rightarrow> (Some err, r)
      | (None, r) \<Rightarrow>
     (case checkProjectNameStep w r of
        (Some err, r) \<Rightarrow> (Some err, r)
      | (None, r) \<Rightarrow>
     (case repoStep w r of
        (Some err, r) \<Rightarrow> (Some err, r)
      | (None, r) \<Rightarrow> (None, r))))))"

subsection \<open>\<open>PostScaffold\<close> (init.go, lines 147-174)\<close>

text \<open>One call of \<open>util.RunCmd(description, program, args...)\<close>.\<close>

definition runCmd :: "world \<Rightarrow> string \<Rightarrow> string \<Rightarrow> string list \<Rightarrow> run \<Rightarrow> error option \<times> run" where
  "runCmd w description program args r =
     (RunCmd w description program args, emit (CallRunCmd description program args) r)"

definition skipMessage :: string where
  "skipMessage = ''Skipping fetching dependencies.\<newline>''"

definition nextHint :: "string \<Rightarrow> string" where
  "nextHint cmd = ''Next: define a resource with:\<newline>$ '' @ cmd @ '' create api\<newline>''"

definition PostScaffold :: "world \<Rightarrow> initSubcommand \<Rightarrow> error option \<times> run" where
  "PostScaffold w p =
     (let r = \<lparr>self = p, trace = []\<rparr> in
      if \<not> fetchDeps p then (None, emit (Print skipMessage) r)
      else
     (case runCmd w ''Get controller runtime'' ''go''
             [''get'', ''sigs.k8s.io/controller-runtime@'' @ ControllerRuntimeVersion w] r of
        (Some err, r) \<Rightarrow> (Some err, r)
      | (None, r) \<Rightarrow>
     (case runCmd w ''Update go.mod'' ''go'' [''mod'', ''tidy''] r of
        (Some err, r) \<Rightarrow> (Some err, r)
      | (None, r) \<Rightarrow>
     (case runCmd w ''Running make'' ''make'' [] r of
        (Some err, r) \<Rightarrow> (Some err, r)
      | (None, r) \<Rightarrow> (None, emit (Print (nextHint (commandName p))) r)))))"

subsection \<open>Vocabulary of the statements\<close>

text \<open>The name policy of \<open>checkDir\<close>: the names that line 188 lets pass.\<close>

definition allowedName :: "string \<Rightarrow> bool" where
  "allowedName nm = (nm = ''go.mod'' \<or> HasPrefix nm ''.'')"

text \<open>
  The entries below a path, at every depth, in the order of the walk (each directory before
  its contents), each with the message of the file-system error met there, if any.
  \<open>visits\<close> starts with the entry itself, under the name given.
\<close>

fun visits :: "string \<Rightarrow> fnode \<Rightarrow> (string \<times> string option) list"
  and visitsNames :: "(string \<times> fnode) list \<Rightarrow> (string \<times> string option) list"
where
  "visits nm File = [(nm, None)]"
| "visits nm (Dir es) = (nm, None) # visitsNames es"
| "visits nm (DirUnreadable m) = [(nm, Some m)]"
| "visits nm (NoStat m) = [(nm, Some m)]"
| "visitsNames [] = []"
| "visitsNames ((nm, child) # rest) = visits nm child @ visitsNames rest"



text \<open>
  The first entry of a list of visited entries that is in error or has a name outside the
  policy, as the error it stands for.
\<close>

fun firstFailure :: "(string \<times> string option) list \<Rightarrow> error option" where
  "firstFailure [] = None"
| "firstFailure ((nm, Some m) # rest) = Some (OSError m)"
| "firstFailure ((nm, None) # rest) =
     (if allowedName nm then firstFailure rest else Some notAllowedError)"

text \<open>
  The calls of a run of \<open>Validate\<close> in which nothing fails, for a subcommand \<open>p\<close> whose
  project name is, or is resolved to, \<open>name\<close>.
\<close>

definition validateOrder :: "initSubcommand \<Rightarrow> string \<Rightarrow> event list" where
  "validateOrder p name =
     (if skipGoVersionCheck p then [] else [CallValidateGoVersion])
     @ [CallCheckDir]
     @ (if ProjectName (config p) = '''' then [CallGetwd] else [])
     @ [CallIsDNS1123Label name]
     @ (if Repo (config p) = '''' then [CallFindCurrentRepo] else [])"

text \<open>
  The project name that \<open>Validate\<close> checks: the configured one, or the one derived from
  the working directory when none is configured; none when the working directory is needed
  and cannot be obtained.
\<close>

definition resolvedName :: "world \<Rightarrow> initSubcommand \<Rightarrow> string option" where
  "resolvedName w p =
     (if ProjectName (config p) = ''''
      then (case Getwd w of
              Inl err \<Rightarrow> None
            | Inr dir \<Rightarrow> Some (ToLower (unicodeToLower w) (Base dir)))
      else Some (ProjectName (config p)))"

text \<open>
  All that precedes the repository step in \<open>Validate\<close> passes: the version check is skipped
  or succeeds, the directory check succeeds, and there is a project name that the label check
  accepts. Nothing here looks at the repository.
\<close>

definition reachesRepoStep :: "world \<Rightarrow> initSubcommand \<Rightarrow> bool" where
  "reachesRepoStep w p =
     ((skipGoVersionCheck p \<or> ValidateGoVersion w = None)
      \<and> checkDir (workingDir w) = None
      \<and> (case resolvedName w p of
            None \<Rightarrow> False
          | Some name \<Rightarrow> IsDNS1123Label w name = None))"

text \<open>The world answers the call with an error (for the label check: with a non-nil value).\<close>

fun callFails :: "world \<Rightarrow> event \<Rightarrow> bool" where
  "callFails w CallValidateGoVersion = (ValidateGoVersion w \<noteq> None)"
| "callFails w CallCheckDir = (checkDir (workingDir w) \<noteq> None)"
| "callFails w CallGetwd = isl (Getwd w)"
| "callFails w (CallIsDNS1123Label name) = (IsDNS1123Label w name \<noteq> None)"
| "callFails w CallFindCurrentRepo = isl (FindCurrentRepo w)"
| "callFails w (CallRunCmd description program args) = (RunCmd w description program args \<noteq> None)"
| "callFails w (Print s) = False"

text \<open>The three external commands of \<open>PostScaffold\<close>, and what the world answers to one.\<close>

definition getControllerRuntime :: "world \<Rightarrow> event" where
  "getControllerRuntime w =
     CallRunCmd ''Get controller runtime'' ''go''
       [''get'', ''sigs.k8s.io/controller-runtime@'' @ ControllerRuntimeVersion w]"

definition goModTidy :: event where
  "goModTidy = CallRunCmd ''Update go.mod'' ''go'' [''mod'', ''tidy'']"

definition runMake :: event where
  "runMake = CallRunCmd ''Running make'' ''make'' []"

fun outcome :: "world \<Rightarrow> event \<Rightarrow> error option" where
  "outcome w (CallRunCmd description program args) = RunCmd w description program args"
| "outcome w _ = None"

subsection \<open>Concrete runs\<close>

text \<open>
  A label check in the spirit of DNS-1123, for the concrete runs only: lower-case
  alphanumerics and hyphens, alphanumeric at both ends, at most 63 bytes.
\<close>

definition exampleLabelCheck :: "string \<Rightarrow> string option" where
  "exampleLabelCheck s =
     (if s \<noteq> [] \<and> length s \<le> 63
         \<and> list_all (\<lambda>c. c \<in> set ''abcdefghijklmnopqrstuvwxyz0123456789-'') s
         \<and> hd s \<noteq> CHR ''-'' \<and> last s \<noteq> CHR ''-''
      then None
      else Some ''[a DNS-1123 label must consist of lower case alphanumeric characters or -]'')"

definition exampleConfig :: Config where
  "exampleConfig =
     \<lparr>Domain = ''my.domain'', ProjectName = '''', Repo = '''', ComponentConfig = False,
      Layout = ''go.kubebuilder.io/v3''\<rparr>"

definition exampleInit :: initSubcommand where
  "exampleInit =
     \<lparr>config = exampleConfig, commandName = ''kubebuilder'', license = ''apache2'',
      owner = '''', fetchDeps = True, skipGoVersionCheck = False\<rparr>"

definition exampleDir :: fnode where
  "exampleDir = Dir [(''.gitignore'', File), (''go.mod'', File)]"

definition exampleWorld :: world where
  "exampleWorld =
     \<lparr>ValidateGoVersion = None, workingDir = exampleDir, Getwd = Inr ''/home/dev/MyApp'',
      unicodeToLower = (\<lambda>s. s), IsDNS1123Label = exampleLabelCheck,
      FindCurrentRepo = Inr ''example.com/myapp'', RunCmd = (\<lambda>description program args. None),
      ControllerRuntimeVersion = ''v0.6.3''\<rparr>"

text \<open>The example world in which the command with the given description fails.\<close>

definition failingAt :: "string \<Rightarrow> world" where
  "failingAt description =
     exampleWorld\<lparr>RunCmd := (\<lambda>d program args.
        if d = description then Some (OSError ''exit status 1'') else None)\<rparr>"



definition gitCheckout :: fnode where
  "gitCheckout = Dir [(''.git'', Dir [(''HEAD'', File)])]"

definition unreadableData :: fnode where
  "unreadableData =
     Dir [(''.git'', Dir []), (''data'', DirUnreadable ''open data: permission denied''),
          (''main.go'', File)]"

text \<open>Subcommands before and after \<open>Validate\<close>, and one with a name that is no label.\<close>

definition exampleNamed :: initSubcommand where
  "exampleNamed = exampleInit\<lparr>config := exampleConfig\<lparr>ProjectName := ''myapp''\<rparr>\<rparr>"

definition exampleResolved :: initSubcommand where
  "exampleResolved =
     exampleInit\<lparr>config := exampleConfig\<lparr>ProjectName := ''myapp'', Repo := ''example.com/myapp''\<rparr>\<rparr>"

definition exampleBadName :: initSubcommand where
  "exampleBadName =
     exampleInit\<lparr>config := exampleConfig\<lparr>ProjectName := ''My_App'', Repo := ''example.com/app''\<rparr>\<rparr>"

definition labelMessage :: string where
  "labelMessage = ''[a DNS-1123 label must consist of lower case alphanumeric characters or -]''"

text \<open>A subcommand whose repository, given by the user, is no module path.\<close>

definition exampleOddRepo :: initSubcommand where
  "exampleOddRepo =
     exampleInit\<lparr>config := exampleConfig\<lparr>ProjectName := ''myapp'', Repo := ''Not A Module Path!''\<rparr>\<rparr>"

text \<open>Worlds in which one collaborator fails.\<close>

definition oldGoWorld :: world where
  "oldGoWorld = exampleWorld\<lparr>ValidateGoVersion := Some (FmtErrorf ''go version is not supported'')\<rparr>"

definition noRepoWorld :: world where
  "noRepoWorld = exampleWorld\<lparr>FindCurrentRepo := Inl (OSError ''go: cannot find main module'')\<rparr>"

definition noCwdWorld :: world where
  "noCwdWorld = exampleWorld\<lparr>Getwd := Inl (OSError ''getwd: no such file or directory'')\<rparr>"

definition dirtyWorld :: world where
  "dirtyWorld = exampleWorld\<lparr>workingDir := gitCheckout\<rparr>"

section \<open>Theorems\<close>

subsection \<open>\<open>PostScaffold\<close>\<close>

lemmas PostScaffold_defs = PostScaffold_def runCmd_def emit_def Let_def
  getControllerRuntime_def goModTidy_def runMake_def

text \<open>
  C6. If the fetch-dependencies option is false, \<open>PostScaffold\<close> returns ok; all it does is
  print the message that fetching is skipped: the trace holds that one print and no call of
  an external command.
\<close>

theorem PostScaffold_skip:
  "\<not> fetchDeps p \<Longrightarrow> PostScaffold w p = (None, \<lparr>self = p, trace = [Print skipMessage]\<rparr>)"
  by (simp add: PostScaffold_def emit_def)

theorem PostScaffold_skip_witness:
  "\<not> fetchDeps (exampleInit\<lparr>fetchDeps := False\<rparr>)
   \<and> PostScaffold exampleWorld (exampleInit\<lparr>fetchDeps := False\<rparr>)
       = (None, \<lparr>self = exampleInit\<lparr>fetchDeps := False\<rparr>,
                 trace = [Print ''Skipping fetching dependencies.\<newline>'']\<rparr>)"
  using PostScaffold_skip [of "exampleInit\<lparr>fetchDeps := False\<rparr>" exampleWorld]
  by (simp add: skipMessage_def)

text \<open>
  C2. With dependency fetching enabled the three commands run in the order go get, go mod
  tidy, make. If one fails, the trace ends with it (no later command is called and the hint
  is not printed) and \<open>PostScaffold\<close> returns that command's error itself. Only when all
  three succeed is the hint printed, last.
\<close>

theorem PostScaffold_sequence:
  assumes "fetchDeps p"
  shows "(\<forall>e. outcome w (getControllerRuntime w) = Some e \<longrightarrow>
            PostScaffold w p = (Some e, \<lparr>self = p, trace = [getControllerRuntime w]\<rparr>))
       \<and> (\<forall>e. outcome w (getControllerRuntime w) = None \<and> outcome w goModTidy = Some e \<longrightarrow>
            PostScaffold w p = (Some e, \<lparr>self = p, trace = [getControllerRuntime w, goModTidy]\<rparr>))
       \<and> (\<forall>e. outcome w (getControllerRuntime w) = None \<and> outcome w goModTidy = None
              \<and> outcome w runMake = Some e \<longrightarrow>
            PostScaffold w p
              = (Some e, \<lparr>self = p, trace = [getControllerRuntime w, goModTidy, runMake]\<rparr>))
       \<and> (outcome w (getControllerRuntime w) = None \<and> outcome w goModTidy = None
              \<and> outcome w runMake = None \<longrightarrow>
            PostScaffold w p
              = (None, \<lparr>self = p, trace = [getControllerRuntime w, goModTidy, runMake,
                                            Print (nextHint (commandName p))]\<rparr>))"
  using assms by (simp add: PostScaffold_defs)

theorem PostScaffold_sequence_witness:
  "fetchDeps exampleInit
   \<and> PostScaffold (failingAt ''Get controller runtime'') exampleInit
       = (Some (OSError ''exit status 1''),
          \<lparr>self = exampleInit,
           trace = [CallRunCmd ''Get controller runtime'' ''go''
                      [''get'', ''sigs.k8s.io/controller-runtime@v0.6.3'']]\<rparr>)
   \<and> PostScaffold (failingAt ''Update go.mod'') exampleInit
       = (Some (OSError ''exit status 1''),
          \<lparr>self = exampleInit,
           trace = [CallRunCmd ''Get controller runtime'' ''go''
                      [''get'', ''sigs.k8s.io/controller-runtime@v0.6.3''],
                    CallRunCmd ''Update go.mod'' ''go'' [''mod'', ''tidy'']]\<rparr>)
   \<and> PostScaffold (failingAt ''Running make'') exampleInit
       = (Some (OSError ''exit status 1''),
          \<lparr>self = exampleInit,
           trace = [CallRunCmd ''Get controller runtime'' ''go''
                      [''get'', ''sigs.k8s.io/controller-runtime@v0.6.3''],
                    CallRunCmd ''Update go.mod'' ''go'' [''mod'', ''tidy''],
                    CallRunCmd ''Running make'' ''make'' []]\<rparr>)
   \<and> PostScaffold exampleWorld exampleInit
       = (None,
          \<lparr>self = exampleInit,
           trace = [CallRunCmd ''Get controller runtime'' ''go''
                      [''get'', ''sigs.k8s.io/controller-runtime@v0.6.3''],
                    CallRunCmd ''Update go.mod'' ''go'' [''mod'', ''tidy''],
                    CallRunCmd ''Running make'' ''make'' [],
                    Print ''Next: define a resource with:\<newline>$ kubebuilder create api\<newline>'']\<rparr>)"
proof -
  have f: "fetchDeps exampleInit" by (simp add: exampleInit_def)
  show ?thesis
    using f
      PostScaffold_sequence [OF f, of "failingAt ''Get controller runtime''"]
      PostScaffold_sequence [OF f, of "failingAt ''Update go.mod''"]
      PostScaffold_sequence [OF f, of "failingAt ''Running make''"]
      PostScaffold_sequence [OF f, of exampleWorld]
    by (simp add: failingAt_def exampleWorld_def getControllerRuntime_def goModTidy_def
        runMake_def nextHint_def exampleInit_def)
qed

subsection \<open>\<open>checkDir\<close>: the walk as a search for the first failure\<close>

lemma firstFailure_append:
  "firstFailure (xs @ ys) = (case firstFailure xs of Some e \<Rightarrow> Some e | None \<Rightarrow> firstFailure ys)"
  by (induction xs rule: firstFailure.induct) auto

lemma firstFailure_not_SkipDir: "firstFailure xs \<noteq> Some SkipDir"
  by (induction xs rule: firstFailure.induct) (auto simp: notAllowedError_def)

text \<open>
  With the callback of \<open>checkDir\<close>, which never answers \<open>SkipDir\<close>, the walk returns the
  failure of the first entry, in its order, that is in error or has a name outside the policy.
\<close>

lemma walk_firstFailure:
  "(\<forall>m. node \<noteq> NoStat m) \<longrightarrow> walk checkDirFn path nm node = firstFailure (visits nm node)"
  "walkNames checkDirFn path es = firstFailure (visitsNames es)"
proof (induction checkDirFn path nm node and checkDirFn path es rule: walk_walkNames.induct)
  case (1 path nm)
  show ?case by (auto simp: allowedName_def)
next
  case (2 path nm m)
  show ?case by simp
next
  case (3 path nm es)
  then show ?case by (auto simp: allowedName_def)
next
  case (4 path nm m)
  show ?case by simp
next
  case (5 path)
  show ?case by simp
next
  case (6 path nm child rest)
  show ?case
  proof (cases child)
    case (NoStat m)
    then show ?thesis by simp
  next
    case File
    with 6 show ?thesis
      by (auto simp: firstFailure_append allowedName_def split: option.splits)
  next
    case (Dir es)
    with 6 firstFailure_not_SkipDir [of "visits nm child"] show ?thesis
      by (auto simp: firstFailure_append simp del: walk.simps visits.simps split: option.splits)
  next
    case (DirUnreadable m)
    with 6 show ?thesis
      by (auto simp: firstFailure_append split: option.splits)
  qed
qed

lemma Base_dot: "Base ''.'' = ''.''"
  by (simp add: Base_def isPathSeparator_def)

lemma checkDir_firstFailure: "checkDir cwd = firstFailure (visits ''.'' cwd)"
proof (cases cwd)
  case (NoStat m)
  then show ?thesis by (simp add: checkDir_def Walk_def Base_dot)
next
  case File
  then show ?thesis
    using walk_firstFailure(1) [of cwd "''.''" "''.''"]
      firstFailure_not_SkipDir [of "visits ''.'' cwd"]
    by (simp add: checkDir_def Walk_def Base_dot split: option.splits)
next
  case (Dir es)
  then show ?thesis
    using walk_firstFailure(1) [of cwd "''.''" "''.''"]
      firstFailure_not_SkipDir [of "visits ''.'' cwd"]
    by (simp add: checkDir_def Walk_def Base_dot del: walk.simps visits.simps
        split: option.splits)
next
  case (DirUnreadable m)
  then show ?thesis
    by (simp add: checkDir_def Walk_def Base_dot)
qed

text \<open>The callback is never handed a nil info without an error: \<open>checkDir\<close> does not panic.\<close>

lemma checkDir_no_panic: "checkDir cwd \<noteq> Some NilDeref"
proof -
  have "firstFailure xs \<noteq> Some NilDeref" for xs
    by (induction xs rule: firstFailure.induct) (auto simp: notAllowedError_def)
  then show ?thesis by (simp add: checkDir_firstFailure)
qed







text \<open>
  The walk descends into directories whose names start with a dot: a working directory that
  holds nothing but .git is refused as soon as .git holds a file such as HEAD.
\<close>

lemma checkDir_descends_into_dot_directories:
  "list_all allowedName (map fst (visitsNames [(''.git'', Dir [])]))
   \<and> checkDir gitCheckout = Some notAllowedError"
  by (simp add: gitCheckout_def allowedName_def HasPrefix_def checkDir_firstFailure)

text \<open>
  C10. The callback returns any error it is handed as it is. So when the first entry of the
  walk that is in error or outside the name policy is one that the file system failed on,
  \<open>checkDir\<close> returns that error of the file system, whatever the name of the entry.
\<close>

theorem checkDir_propagates_walk_error:
  assumes "visits ''.'' cwd = before @ (nm, Some m) # after"
    and "list_all (\<lambda>v. snd v = None \<and> allowedName (fst v)) before"
  shows "checkDir cwd = Some (OSError m)
       \<and> (\<forall>path info err. checkDirFn path info (Some err) = Some err)"
proof -
  from assms(2) have "firstFailure before = None"
    by (induction before rule: firstFailure.induct) auto
  with assms(1) show ?thesis
    by (simp add: checkDir_firstFailure firstFailure_append)
qed

theorem checkDir_propagates_walk_error_witness:
  "visits ''.'' unreadableData
     = [(''.'', None), (''.git'', None)]
       @ (''data'', Some ''open data: permission denied'') # [(''main.go'', None)]
   \<and> list_all (\<lambda>v. snd v = None \<and> allowedName (fst v)) [(''.'', None), (''.git'', None)]
   \<and> \<not> allowedName ''data''
   \<and> checkDir unreadableData = Some (OSError ''open data: permission denied'')"
proof -
  have v: "visits ''.'' unreadableData
     = [(''.'', None), (''.git'', None)]
       @ (''data'', Some ''open data: permission denied'') # [(''main.go'', None)]"
    by (simp add: unreadableData_def)
  have a: "list_all (\<lambda>v. snd v = None \<and> allowedName (fst v)) [(''.'', None), (''.git'', None)]"
    by (simp add: allowedName_def HasPrefix_def)
  have d: "\<not> allowedName ''data''"
    by (simp add: allowedName_def HasPrefix_def)
  show ?thesis
    using v a d checkDir_propagates_walk_error [OF v a] by simp
qed

subsection \<open>\<open>Validate\<close>\<close>

lemmas Validate_defs =
  Validate_def validateGoVersionStep_def checkDirStep_def defaultProjectNameStep_def
  checkProjectNameStep_def repoStep_def emit_def setProjectName_def setRepo_def Let_def

text \<open>The concrete runs, evaluated.\<close>

lemma checkDir_exampleDir: "checkDir exampleDir = None"
  by (simp add: exampleDir_def checkDir_def Walk_def Base_def isPathSeparator_def Join_def
      HasPrefix_def)

lemma checkDir_gitCheckout: "checkDir gitCheckout = Some notAllowedError"
  by (simp add: gitCheckout_def checkDir_def Walk_def Base_def isPathSeparator_def Join_def
      HasPrefix_def notAllowedError_def)

lemma Base_example: "Base ''/home/dev/MyApp'' = ''MyApp''"
  by (simp add: Base_def isPathSeparator_def)

lemma ToLower_MyApp: "ToLower u ''MyApp'' = ''myapp''"
proof -
  have "isASCII ''MyApp''" and "list_ex isUpperByte ''MyApp''"
    and "map lowerByte ''MyApp'' = ''myapp''"
    by code_simp+
  then show ?thesis by (simp only: ToLower_def if_True not_True_eq_False if_False)
qed

lemma label_myapp: "exampleLabelCheck ''myapp'' = None"
  by (simp add: exampleLabelCheck_def)

lemma label_My_App: "exampleLabelCheck ''My_App'' = Some labelMessage"
  by (simp add: exampleLabelCheck_def labelMessage_def)

lemma run_example:
  "Validate exampleWorld exampleInit
     = (None, \<lparr>self = exampleResolved,
               trace = [CallValidateGoVersion, CallCheckDir, CallGetwd,
                        CallIsDNS1123Label ''myapp'', CallFindCurrentRepo]\<rparr>)"
  by (simp add: Validate_defs exampleWorld_def exampleInit_def exampleConfig_def
      exampleResolved_def checkDir_exampleDir Base_example ToLower_MyApp label_myapp)

lemma run_no_repo:
  "Validate noRepoWorld exampleInit
     = (Some (FmtErrorf ''error finding current repository: go: cannot find main module''),
        \<lparr>self = exampleNamed,
         trace = [CallValidateGoVersion, CallCheckDir, CallGetwd,
                  CallIsDNS1123Label ''myapp'', CallFindCurrentRepo]\<rparr>)"
  by (simp add: Validate_defs noRepoWorld_def exampleWorld_def exampleInit_def exampleConfig_def
      exampleNamed_def checkDir_exampleDir Base_example ToLower_MyApp label_myapp)

lemma run_bad_name:
  "Validate exampleWorld exampleBadName
     = (Some (FmtErrorf (''project name (My_App) is invalid: '' @ labelMessage)),
        \<lparr>self = exampleBadName,
         trace = [CallValidateGoVersion, CallCheckDir, CallIsDNS1123Label ''My_App'']\<rparr>)"
  by (simp add: Validate_defs exampleWorld_def exampleInit_def exampleConfig_def
      exampleBadName_def checkDir_exampleDir label_My_App)

lemma run_old_go:
  "Validate oldGoWorld exampleInit
     = (Some (FmtErrorf ''go version is not supported''),
        \<lparr>self = exampleInit, trace = [CallValidateGoVersion]\<rparr>)"
  by (simp add: Validate_defs oldGoWorld_def exampleWorld_def exampleInit_def)

lemma run_skip_dirty:
  "Validate dirtyWorld (exampleInit\<lparr>skipGoVersionCheck := True\<rparr>)
     = (Some notAllowedError,
        \<lparr>self = exampleInit\<lparr>skipGoVersionCheck := True\<rparr>, trace = [CallCheckDir]\<rparr>)"
  by (simp add: Validate_defs dirtyWorld_def exampleWorld_def exampleInit_def
      checkDir_gitCheckout)

lemma run_no_cwd:
  "Validate noCwdWorld exampleInit
     = (Some (FmtErrorf ''error getting current directory: getwd: no such file or directory''),
        \<lparr>self = exampleInit, trace = [CallValidateGoVersion, CallCheckDir, CallGetwd]\<rparr>)"
  by (simp add: Validate_defs noCwdWorld_def exampleWorld_def exampleInit_def exampleConfig_def
      checkDir_exampleDir)

text \<open>
  The six ways a run of \<open>Validate\<close> can end: at the version check, at the directory check,
  at the working-directory lookup, at the label check, at repository detection, or with ok.
\<close>

lemma Validate_outcomes:
  assumes "Validate w p = (res, r)"
  shows "(\<exists>e. \<not> skipGoVersionCheck p \<and> ValidateGoVersion w = Some e \<and> res = Some e
            \<and> r = \<lparr>self = p, trace = [CallValidateGoVersion]\<rparr>)
       \<or> (\<exists>e. (skipGoVersionCheck p \<or> ValidateGoVersion w = None)
            \<and> checkDir (workingDir w) = Some e \<and> res = Some e
            \<and> r = \<lparr>self = p,
                    trace = (if skipGoVersionCheck p then [] else [CallValidateGoVersion])
                            @ [CallCheckDir]\<rparr>)
       \<or> (\<exists>e. (skipGoVersionCheck p \<or> ValidateGoVersion w = None)
            \<and> checkDir (workingDir w) = None
            \<and> ProjectName (config p) = '''' \<and> Getwd w = Inl e
            \<and> res = Some (FmtErrorf (''error getting current directory: '' @ Error e))
            \<and> r = \<lparr>self = p,
                    trace = (if skipGoVersionCheck p then [] else [CallValidateGoVersion])
                            @ [CallCheckDir, CallGetwd]\<rparr>)
       \<or> (\<exists>name. (skipGoVersionCheck p \<or> ValidateGoVersion w = None)
            \<and> checkDir (workingDir w) = None
            \<and> (if ProjectName (config p) = ''''
                then \<exists>dir. Getwd w = Inr dir \<and> name = ToLower (unicodeToLower w) (Base dir)
                else name = ProjectName (config p))
            \<and> ((\<exists>m. IsDNS1123Label w name = Some m
                  \<and> res = Some (FmtErrorf (''project name ('' @ name @ '') is invalid: '' @ m))
                  \<and> r = \<lparr>self = p\<lparr>config := (config p)\<lparr>ProjectName := name\<rparr>\<rparr>,
                          trace = (if skipGoVersionCheck p then [] else [CallValidateGoVersion])
                                  @ [CallCheckDir]
                                  @ (if ProjectName (config p) = '''' then [CallGetwd] else [])
                                  @ [CallIsDNS1123Label name]\<rparr>)
              \<or> (\<exists>e. IsDNS1123Label w name = None
                  \<and> Repo (config p) = '''' \<and> FindCurrentRepo w = Inl e
                  \<and> res = Some (FmtErrorf (''error finding current repository: '' @ Error e))
                  \<and> r = \<lparr>self = p\<lparr>config := (config p)\<lparr>ProjectName := name\<rparr>\<rparr>,
                          trace = (if skipGoVersionCheck p then [] else [CallValidateGoVersion])
                                  @ [CallCheckDir]
                                  @ (if ProjectName (config p) = '''' then [CallGetwd] else [])
                                  @ [CallIsDNS1123Label name, CallFindCurrentRepo]\<rparr>)
              \<or> (\<exists>repoPath. IsDNS1123Label w name = None
                  \<and> (if Repo (config p) = '''' then FindCurrentRepo w = Inr repoPath
                      else repoPath = Repo (config p))
                  \<and> res = None
                  \<and> r = \<lparr>self = p\<lparr>config := (config p)\<lparr>ProjectName := name,
                                                            Repo := repoPath\<rparr>\<rparr>,
                          trace = (if skipGoVersionCheck p then [] else [CallValidateGoVersion])
                                  @ [CallCheckDir]
                                  @ (if ProjectName (config p) = '''' then [CallGetwd] else [])
                                  @ [CallIsDNS1123Label name]
                                  @ (if Repo (config p) = '''' then [CallFindCurrentRepo]
                                     else [])\<rparr>)))"
  using assms
  by (auto simp: Validate_defs split: option.splits sum.splits if_splits)

text \<open>
  C3. The calls of \<open>Validate\<close> are always a non-empty initial part of one fixed sequence: the
  Go version check (absent exactly when the skip option is set), the directory check, the
  working-directory lookup if the name is empty, the label check, repository detection if
  the repository is empty. No call but the last one made has failed, \<open>Validate\<close> returns an
  error exactly when the last call made has failed, and a run that returns ok has made all
  the calls. In particular, after a failed version check nothing else is called, and after a
  failed label check repository detection is not called.
\<close>

theorem Validate_order:
  assumes "Validate w p = (res, r)"
  shows "prefix (trace r) (validateOrder p (ProjectName (config (self r))))
       \<and> trace r \<noteq> []
       \<and> (\<forall>ev \<in> set (butlast (trace r)). \<not> callFails w ev)
       \<and> (res \<noteq> None \<longleftrightarrow> callFails w (last (trace r)))
       \<and> (res = None \<longrightarrow> trace r = validateOrder p (ProjectName (config (self r))))
       \<and> (skipGoVersionCheck p \<longrightarrow> CallValidateGoVersion \<notin> set (trace r))
       \<and> (\<forall>e. \<not> skipGoVersionCheck p \<and> ValidateGoVersion w = Some e \<longrightarrow>
             res = Some e \<and> trace r = [CallValidateGoVersion])
       \<and> (\<forall>n m. CallIsDNS1123Label n \<in> set (trace r) \<and> IsDNS1123Label w n = Some m \<longrightarrow>
             res \<noteq> None \<and> last (trace r) = CallIsDNS1123Label n
             \<and> CallFindCurrentRepo \<notin> set (trace r))"
  using Validate_outcomes [OF assms]
  by (elim disjE exE conjE) (auto simp: validateOrder_def split: if_splits)

theorem Validate_order_witness:
  "Validate exampleWorld exampleInit
     = (None, \<lparr>self = exampleResolved,
               trace = [CallValidateGoVersion, CallCheckDir, CallGetwd,
                        CallIsDNS1123Label ''myapp'', CallFindCurrentRepo]\<rparr>)
   \<and> validateOrder exampleInit ''myapp''
       = [CallValidateGoVersion, CallCheckDir, CallGetwd,
          CallIsDNS1123Label ''myapp'', CallFindCurrentRepo]
   \<and> \<not> skipGoVersionCheck exampleInit
   \<and> ValidateGoVersion oldGoWorld = Some (FmtErrorf ''go version is not supported'')
   \<and> Validate oldGoWorld exampleInit
       = (Some (FmtErrorf ''go version is not supported''),
          \<lparr>self = exampleInit, trace = [CallValidateGoVersion]\<rparr>)
   \<and> skipGoVersionCheck (exampleInit\<lparr>skipGoVersionCheck := True\<rparr>)
   \<and> Validate dirtyWorld (exampleInit\<lparr>skipGoVersionCheck := True\<rparr>)
       = (Some notAllowedError,
          \<lparr>self = exampleInit\<lparr>skipGoVersionCheck := True\<rparr>, trace = [CallCheckDir]\<rparr>)
   \<and> callFails dirtyWorld CallCheckDir
   \<and> IsDNS1123Label exampleWorld ''My_App'' = Some labelMessage
   \<and> Validate exampleWorld exampleBadName
       = (Some (FmtErrorf (''project name (My_App) is invalid: '' @ labelMessage)),
          \<lparr>self = exampleBadName,
           trace = [CallValidateGoVersion, CallCheckDir, CallIsDNS1123Label ''My_App'']\<rparr>)
   \<and> \<not> callFails exampleWorld CallValidateGoVersion \<and> \<not> callFails exampleWorld CallCheckDir
   \<and> callFails exampleWorld (CallIsDNS1123Label ''My_App'')"
proof -
  have order: "validateOrder exampleInit ''myapp''
       = [CallValidateGoVersion, CallCheckDir, CallGetwd,
          CallIsDNS1123Label ''myapp'', CallFindCurrentRepo]"
    using Validate_order [OF run_example]
    by (simp add: exampleResolved_def exampleInit_def exampleConfig_def)
  have skip: "\<not> skipGoVersionCheck exampleInit"
    "skipGoVersionCheck (exampleInit\<lparr>skipGoVersionCheck := True\<rparr>)"
    by (simp_all add: exampleInit_def)
  have old: "ValidateGoVersion oldGoWorld = Some (FmtErrorf ''go version is not supported'')"
    by (simp add: oldGoWorld_def)
  have label: "IsDNS1123Label exampleWorld ''My_App'' = Some labelMessage"
    by (simp add: exampleWorld_def label_My_App)
  have dirty: "callFails dirtyWorld CallCheckDir"
    using Validate_order [OF run_skip_dirty] by simp
  have bad: "\<not> callFails exampleWorld CallValidateGoVersion"
    "\<not> callFails exampleWorld CallCheckDir"
    "callFails exampleWorld (CallIsDNS1123Label ''My_App'')"
    using Validate_order [OF run_bad_name] by simp_all
  from run_example order skip(1) old run_old_go skip(2) run_skip_dirty dirty label
    run_bad_name bad
  show ?thesis by (intro conjI)
qed

lemma message_includes_name:
  "sublist name (''project name ('' @ name @ '') is invalid: '' @ m)"
  by (rule sublist_appendI)

text \<open>
  C4. Once the version and directory checks have passed, the project name is the configured
  one or, if that is empty, the lower-case form of the base name of the working directory
  (myapp for a directory named MyApp). That name is stored in the configuration and handed
  to the label check, and when the check fails \<open>Validate\<close> returns an error whose message
  contains the name.
\<close>

theorem Validate_project_name:
  assumes "Validate w p = (res, r)"
    and "skipGoVersionCheck p \<or> ValidateGoVersion w = None"
    and "checkDir (workingDir w) = None"
    and "ProjectName (config p) = '''' \<longrightarrow> Getwd w = Inr dir"
    and "name = (if ProjectName (config p) = ''''
                 then ToLower (unicodeToLower w) (Base dir)
                 else ProjectName (config p))"
  shows "ProjectName (config (self r)) = name
       \<and> CallIsDNS1123Label name \<in> set (trace r)
       \<and> (\<forall>m. IsDNS1123Label w name = Some m \<longrightarrow>
             res = Some (FmtErrorf (''project name ('' @ name @ '') is invalid: '' @ m))
             \<and> sublist name (''project name ('' @ name @ '') is invalid: '' @ m))
       \<and> (ProjectName (config p) = '''' \<and> Base dir = ''MyApp'' \<longrightarrow> name = ''myapp'')"
  using Validate_outcomes [OF assms(1)] assms(2-) message_includes_name [of name]
  by (elim disjE exE conjE) (auto simp: ToLower_MyApp split: if_splits)

theorem Validate_project_name_witness:
  "Validate exampleWorld exampleInit
     = (None, \<lparr>self = exampleResolved,
               trace = [CallValidateGoVersion, CallCheckDir, CallGetwd,
                        CallIsDNS1123Label ''myapp'', CallFindCurrentRepo]\<rparr>)
   \<and> ValidateGoVersion exampleWorld = None
   \<and> checkDir (workingDir exampleWorld) = None
   \<and> ProjectName (config exampleInit) = ''''
   \<and> Getwd exampleWorld = Inr ''/home/dev/MyApp''
   \<and> Base ''/home/dev/MyApp'' = ''MyApp''
   \<and> ProjectName (config exampleResolved) = ''myapp''
   \<and> ProjectName (config exampleBadName) = ''My_App''
   \<and> IsDNS1123Label exampleWorld ''My_App'' = Some labelMessage
   \<and> fst (Validate exampleWorld exampleBadName)
       = Some (FmtErrorf (''project name ('' @ ''My_App'' @ '') is invalid: '' @ labelMessage))
   \<and> sublist ''My_App'' (''project name ('' @ ''My_App'' @ '') is invalid: '' @ labelMessage)"
proof -
  have v: "ValidateGoVersion exampleWorld = None"
    by (simp add: exampleWorld_def)
  then have v': "skipGoVersionCheck p \<or> ValidateGoVersion exampleWorld = None" for p
    by simp
  have c: "checkDir (workingDir exampleWorld) = None"
    by (simp add: exampleWorld_def checkDir_exampleDir)
  have e: "ProjectName (config exampleInit) = ''''"
    by (simp add: exampleInit_def exampleConfig_def)
  have e': "ProjectName (config exampleBadName) = ''My_App''"
    by (simp add: exampleBadName_def exampleInit_def exampleConfig_def)
  have gw: "Getwd exampleWorld = Inr ''/home/dev/MyApp''"
    by (simp add: exampleWorld_def)
  then have g: "ProjectName (config p) = '''' \<longrightarrow> Getwd exampleWorld = Inr ''/home/dev/MyApp''"
    for p by simp
  have n: "''myapp'' = (if ProjectName (config exampleInit) = ''''
                 then ToLower (unicodeToLower exampleWorld) (Base ''/home/dev/MyApp'')
                 else ProjectName (config exampleInit))"
    by (simp add: e Base_example ToLower_MyApp)
  have n': "''My_App'' = (if ProjectName (config exampleBadName) = ''''
                 then ToLower (unicodeToLower exampleWorld) (Base ''/home/dev/MyApp'')
                 else ProjectName (config exampleBadName))"
    by (simp add: e')
  have l: "IsDNS1123Label exampleWorld ''My_App'' = Some labelMessage"
    by (simp add: exampleWorld_def label_My_App)
  have "ProjectName (config (self \<lparr>self = exampleResolved,
               trace = [CallValidateGoVersion, CallCheckDir, CallGetwd,
                        CallIsDNS1123Label ''myapp'', CallFindCurrentRepo]\<rparr>)) = ''myapp''"
    using Validate_project_name [OF run_example v' c g n] by (rule conjunct1)
  then have a: "ProjectName (config exampleResolved) = ''myapp''"
    by simp
  have "\<forall>m. IsDNS1123Label exampleWorld ''My_App'' = Some m \<longrightarrow>
          Some (FmtErrorf (''project name (My_App) is invalid: '' @ labelMessage))
            = Some (FmtErrorf (''project name ('' @ ''My_App'' @ '') is invalid: '' @ m))
          \<and> sublist ''My_App'' (''project name ('' @ ''My_App'' @ '') is invalid: '' @ m)"
    using Validate_project_name [OF run_bad_name v' c g n'] by (elim conjE)
  with l have b: "Some (FmtErrorf (''project name (My_App) is invalid: '' @ labelMessage))
            = Some (FmtErrorf (''project name ('' @ ''My_App'' @ '') is invalid: '' @ labelMessage))"
    and s: "sublist ''My_App'' (''project name ('' @ ''My_App'' @ '') is invalid: '' @ labelMessage)"
    by blast+
  have f: "fst (Validate exampleWorld exampleBadName)
       = Some (FmtErrorf (''project name ('' @ ''My_App'' @ '') is invalid: '' @ labelMessage))"
    unfolding run_bad_name fst_conv by (rule b)
  from run_example v c e gw Base_example a e' l f s show ?thesis
    by (intro conjI)
qed

lemma run_odd_repo:
  "Validate exampleWorld exampleOddRepo
     = (None, \<lparr>self = exampleOddRepo,
               trace = [CallValidateGoVersion, CallCheckDir, CallIsDNS1123Label ''myapp'']\<rparr>)"
  by (simp add: Validate_defs exampleWorld_def exampleInit_def exampleConfig_def
      exampleOddRepo_def checkDir_exampleDir label_myapp)

text \<open>
  The value of a non-empty repository plays no part in \<open>Validate\<close>: with any other non-empty
  repository in its place the result and the calls are the same, and the repository is the
  only difference in the configuration afterwards.
\<close>

lemma Validate_repo_value_irrelevant:
  assumes "Validate w p = (res, r)" and "Repo (config p) \<noteq> ''''" and "v \<noteq> ''''"
  shows "Validate w (p\<lparr>config := (config p)\<lparr>Repo := v\<rparr>\<rparr>)
           = (res, r\<lparr>self := (self r)\<lparr>config := (config (self r))\<lparr>Repo := v\<rparr>\<rparr>\<rparr>)"
  using Validate_outcomes [OF assms(1)] assms(2,3)
  by (elim disjE exE conjE) (auto simp: Validate_defs split: if_splits)

text \<open>
  C5. A repository given in the configuration is used as it is: it is not overwritten,
  repository detection is not called, and it is not validated, that is, whether \<open>Validate\<close>
  returns ok is decided by the checks before the repository step alone, and the run is the
  same for every non-empty repository. Detection is called exactly when the repository is
  empty and the checks before it have passed; then, if it fails, \<open>Validate\<close> returns an error
  that wraps the failure and the repository stays empty, otherwise \<open>Validate\<close> returns ok and
  the repository is what detection returned.
\<close>

theorem Validate_repo:
  assumes "Validate w p = (res, r)"
  shows "(Repo (config p) \<noteq> '''' \<longrightarrow>
            Repo (config (self r)) = Repo (config p) \<and> CallFindCurrentRepo \<notin> set (trace r)
            \<and> (res = None \<longleftrightarrow> reachesRepoStep w p)
            \<and> (\<forall>v. v \<noteq> '''' \<longrightarrow>
                  Validate w (p\<lparr>config := (config p)\<lparr>Repo := v\<rparr>\<rparr>)
                    = (res, r\<lparr>self := (self r)\<lparr>config := (config (self r))\<lparr>Repo := v\<rparr>\<rparr>\<rparr>)))
       \<and> (CallFindCurrentRepo \<in> set (trace r) \<longleftrightarrow>
            Repo (config p) = '''' \<and> reachesRepoStep w p)
       \<and> (Repo (config p) = '''' \<and> reachesRepoStep w p \<longrightarrow>
            (case FindCurrentRepo w of
               Inl err \<Rightarrow> res = Some (FmtErrorf (''error finding current repository: '' @ Error err))
                          \<and> Repo (config (self r)) = ''''
             | Inr repoPath \<Rightarrow> res = None \<and> Repo (config (self r)) = repoPath))
       \<and> (CallFindCurrentRepo \<in> set (trace r) \<longrightarrow> Repo (config p) = '''' \<and>
            (case FindCurrentRepo w of
               Inl err \<Rightarrow> res = Some (FmtErrorf (''error finding current repository: '' @ Error err))
                          \<and> Repo (config (self r)) = ''''
             | Inr repoPath \<Rightarrow> res = None \<and> Repo (config (self r)) = repoPath))
       \<and> (Repo (config p) = '''' \<and> CallIsDNS1123Label (ProjectName (config (self r))) \<in> set (trace r)
            \<and> IsDNS1123Label w (ProjectName (config (self r))) = None \<longrightarrow>
            CallFindCurrentRepo \<in> set (trace r))"
proof -
  have irrelevant: "Repo (config p) \<noteq> '''' \<longrightarrow> (\<forall>v. v \<noteq> '''' \<longrightarrow>
      Validate w (p\<lparr>config := (config p)\<lparr>Repo := v\<rparr>\<rparr>)
        = (res, r\<lparr>self := (self r)\<lparr>config := (config (self r))\<lparr>Repo := v\<rparr>\<rparr>\<rparr>))"
    using Validate_repo_value_irrelevant [OF assms] by blast
  have rest: "(Repo (config p) \<noteq> '''' \<longrightarrow>
            Repo (config (self r)) = Repo (config p) \<and> CallFindCurrentRepo \<notin> set (trace r)
            \<and> (res = None \<longleftrightarrow> reachesRepoStep w p))
       \<and> (CallFindCurrentRepo \<in> set (trace r) \<longleftrightarrow>
            Repo (config p) = '''' \<and> reachesRepoStep w p)
       \<and> (Repo (config p) = '''' \<and> reachesRepoStep w p \<longrightarrow>
            (case FindCurrentRepo w of
               Inl err \<Rightarrow> res = Some (FmtErrorf (''error finding current repository: '' @ Error err))
                          \<and> Repo (config (self r)) = ''''
             | Inr repoPath \<Rightarrow> res = None \<and> Repo (config (self r)) = repoPath))
       \<and> (CallFindCurrentRepo \<in> set (trace r) \<longrightarrow> Repo (config p) = '''' \<and>
            (case FindCurrentRepo w of
               Inl err \<Rightarrow> res = Some (FmtErrorf (''error finding current repository: '' @ Error err))
                          \<and> Repo (config (self r)) = ''''
             | Inr repoPath \<Rightarrow> res = None \<and> Repo (config (self r)) = repoPath))
       \<and> (Repo (config p) = '''' \<and> CallIsDNS1123Label (ProjectName (config (self r))) \<in> set (trace r)
            \<and> IsDNS1123Label w (ProjectName (config (self r))) = None \<longrightarrow>
            CallFindCurrentRepo \<in> set (trace r))"
    using Validate_outcomes [OF assms]
    by (elim disjE exE conjE)
      (auto simp: reachesRepoStep_def resolvedName_def split: if_splits sum.splits)
  from irrelevant rest show ?thesis by blast
qed

theorem Validate_repo_witness:
  "Repo (config exampleOddRepo) = ''Not A Module Path!''
   \<and> reachesRepoStep exampleWorld exampleOddRepo
   \<and> Validate exampleWorld exampleOddRepo
       = (None, \<lparr>self = exampleOddRepo,
                 trace = [CallValidateGoVersion, CallCheckDir, CallIsDNS1123Label ''myapp'']\<rparr>)
   \<and> Validate exampleWorld (exampleOddRepo\<lparr>config := (config exampleOddRepo)\<lparr>Repo := ''x''\<rparr>\<rparr>)
       = (None, \<lparr>self = exampleOddRepo\<lparr>config := (config exampleOddRepo)\<lparr>Repo := ''x''\<rparr>\<rparr>,
                 trace = [CallValidateGoVersion, CallCheckDir, CallIsDNS1123Label ''myapp'']\<rparr>)
   \<and> Repo (config exampleBadName) = ''example.com/app''
   \<and> \<not> reachesRepoStep exampleWorld exampleBadName
   \<and> fst (Validate exampleWorld exampleBadName) \<noteq> None
   \<and> Repo (config (self (snd (Validate exampleWorld exampleBadName)))) = ''example.com/app''
   \<and> Repo (config exampleInit) = ''''
   \<and> reachesRepoStep exampleWorld exampleInit
   \<and> FindCurrentRepo exampleWorld = Inr ''example.com/myapp''
   \<and> Validate exampleWorld exampleInit
       = (None, \<lparr>self = exampleResolved,
                 trace = [CallValidateGoVersion, CallCheckDir, CallGetwd,
                          CallIsDNS1123Label ''myapp'', CallFindCurrentRepo]\<rparr>)
   \<and> Repo (config exampleResolved) = ''example.com/myapp''
   \<and> reachesRepoStep noRepoWorld exampleInit
   \<and> FindCurrentRepo noRepoWorld = Inl (OSError ''go: cannot find main module'')
   \<and> Validate noRepoWorld exampleInit
     = (Some (FmtErrorf ''error finding current repository: go: cannot find main module''),
        \<lparr>self = exampleNamed,
         trace = [CallValidateGoVersion, CallCheckDir, CallGetwd,
                  CallIsDNS1123Label ''myapp'', CallFindCurrentRepo]\<rparr>)
   \<and> Repo (config exampleNamed) = ''''"
proof -
  have odd: "Repo (config exampleOddRepo) = ''Not A Module Path!''"
    and bad: "Repo (config exampleBadName) = ''example.com/app''"
    and empty: "Repo (config exampleInit) = ''''"
    and resolved: "Repo (config exampleResolved) = ''example.com/myapp''"
    and named: "Repo (config exampleNamed) = ''''"
    by (simp_all add: exampleOddRepo_def exampleBadName_def exampleInit_def exampleConfig_def
        exampleResolved_def exampleNamed_def)
  have found: "FindCurrentRepo exampleWorld = Inr ''example.com/myapp''"
    and lost: "FindCurrentRepo noRepoWorld = Inl (OSError ''go: cannot find main module'')"
    by (simp_all add: exampleWorld_def noRepoWorld_def)
  note O = Validate_repo [OF run_odd_repo]
  note B = Validate_repo [OF run_bad_name]
  note E = Validate_repo [OF run_example]
  note N = Validate_repo [OF run_no_repo]
  have o1: "reachesRepoStep exampleWorld exampleOddRepo"
    using O odd by simp
  have o2: "Validate exampleWorld (exampleOddRepo\<lparr>config := (config exampleOddRepo)\<lparr>Repo := ''x''\<rparr>\<rparr>)
       = (None, \<lparr>self = exampleOddRepo\<lparr>config := (config exampleOddRepo)\<lparr>Repo := ''x''\<rparr>\<rparr>,
                 trace = [CallValidateGoVersion, CallCheckDir, CallIsDNS1123Label ''myapp'']\<rparr>)"
    using O odd by simp
  have b1: "\<not> reachesRepoStep exampleWorld exampleBadName"
    using B bad by simp
  have b2: "fst (Validate exampleWorld exampleBadName) \<noteq> None"
    by (simp add: run_bad_name)
  have b3: "Repo (config (self (snd (Validate exampleWorld exampleBadName)))) = ''example.com/app''"
    using B bad by (simp add: run_bad_name)
  have e1: "reachesRepoStep exampleWorld exampleInit"
    using E by simp
  have n1: "reachesRepoStep noRepoWorld exampleInit"
    using N by simp
  from odd o1 run_odd_repo o2 bad b1 b2 b3 empty e1 found run_example resolved n1 lost
    run_no_repo named
  show ?thesis by (intro conjI)
qed

text \<open>
  C7. After a call of \<open>Validate\<close> that returned ok, a second call in the same world returns
  ok as well and leaves the subcommand, with its configuration, as the first call left it.
\<close>

theorem Validate_idempotent:
  assumes "Validate w p = (None, r)"
  shows "\<exists>r'. Validate w (self r) = (None, r') \<and> self r' = self r"
  using Validate_outcomes [OF assms]
  by (elim disjE exE conjE) (auto simp: Validate_defs split: if_splits)

theorem Validate_idempotent_witness:
  "Validate exampleWorld exampleInit
     = (None, \<lparr>self = exampleResolved,
               trace = [CallValidateGoVersion, CallCheckDir, CallGetwd,
                        CallIsDNS1123Label ''myapp'', CallFindCurrentRepo]\<rparr>)
   \<and> (\<exists>r'. Validate exampleWorld exampleResolved = (None, r') \<and> self r' = exampleResolved)"
  using run_example Validate_idempotent [OF run_example] by simp

text \<open>
  C8. When the name is derived from the working directory and passes the label check, and
  repository detection then fails, \<open>Validate\<close> returns the error of the detection, and the
  configuration the caller sees holds the derived project name.
\<close>

theorem Validate_not_atomic:
  assumes "ProjectName (config p) = ''''" and "Repo (config p) = ''''"
    and "skipGoVersionCheck p \<or> ValidateGoVersion w = None"
    and "checkDir (workingDir w) = None"
    and "Getwd w = Inr dir"
    and "IsDNS1123Label w (ToLower (unicodeToLower w) (Base dir)) = None"
    and "FindCurrentRepo w = Inl err"
    and "Validate w p = (res, r)"
  shows "res = Some (FmtErrorf (''error finding current repository: '' @ Error err))
       \<and> ProjectName (config (self r)) = ToLower (unicodeToLower w) (Base dir)"
  using Validate_outcomes [OF assms(8)] assms(1-7)
  by (elim disjE exE conjE) (auto split: if_splits)

theorem Validate_not_atomic_witness:
  "ProjectName (config exampleInit) = '''' \<and> Repo (config exampleInit) = ''''
   \<and> ValidateGoVersion noRepoWorld = None \<and> checkDir (workingDir noRepoWorld) = None
   \<and> Getwd noRepoWorld = Inr ''/home/dev/MyApp''
   \<and> IsDNS1123Label noRepoWorld (ToLower (unicodeToLower noRepoWorld) (Base ''/home/dev/MyApp''))
       = None
   \<and> FindCurrentRepo noRepoWorld = Inl (OSError ''go: cannot find main module'')
   \<and> fst (Validate noRepoWorld exampleInit)
       = Some (FmtErrorf ''error finding current repository: go: cannot find main module'')
   \<and> ProjectName (config (self (snd (Validate noRepoWorld exampleInit)))) = ''myapp''"
proof -
  have h1: "ProjectName (config exampleInit) = ''''" and h2: "Repo (config exampleInit) = ''''"
    by (simp_all add: exampleInit_def exampleConfig_def)
  have h3: "ValidateGoVersion noRepoWorld = None"
    by (simp add: noRepoWorld_def exampleWorld_def)
  then have h3': "skipGoVersionCheck exampleInit \<or> ValidateGoVersion noRepoWorld = None"
    by simp
  have h4: "checkDir (workingDir noRepoWorld) = None"
    by (simp add: noRepoWorld_def exampleWorld_def checkDir_exampleDir)
  have h5: "Getwd noRepoWorld = Inr ''/home/dev/MyApp''"
    by (simp add: noRepoWorld_def exampleWorld_def)
  have h6: "IsDNS1123Label noRepoWorld
              (ToLower (unicodeToLower noRepoWorld) (Base ''/home/dev/MyApp'')) = None"
    by (simp add: noRepoWorld_def exampleWorld_def Base_example ToLower_MyApp label_myapp)
  have h7: "FindCurrentRepo noRepoWorld = Inl (OSError ''go: cannot find main module'')"
    by (simp add: noRepoWorld_def)
  have "ProjectName (config (self \<lparr>self = exampleNamed,
         trace = [CallValidateGoVersion, CallCheckDir, CallGetwd,
                  CallIsDNS1123Label ''myapp'', CallFindCurrentRepo]\<rparr>))
          = ToLower (unicodeToLower noRepoWorld) (Base ''/home/dev/MyApp'')"
    using Validate_not_atomic [OF h1 h2 h3' h4 h5 h6 h7 run_no_repo] by (rule conjunct2)
  then have n: "ProjectName (config (self (snd (Validate noRepoWorld exampleInit)))) = ''myapp''"
    by (simp add: run_no_repo Base_example ToLower_MyApp)
  have f: "fst (Validate noRepoWorld exampleInit)
       = Some (FmtErrorf ''error finding current repository: go: cannot find main module'')"
    by (simp add: run_no_repo)
  from h1 h2 h3 h4 h5 h6 h7 f n show ?thesis
    by (intro conjI)
qed

text \<open>
  C9. Whatever \<open>Validate\<close> returns, the subcommand afterwards is the one before with at most
  the project name and the repository of its configuration changed: domain, component-config
  flag, layout, command name, license, owner and the two options are as before. A project
  name or repository that was not empty is as before too.
\<close>

theorem Validate_frame:
  assumes "Validate w p = (res, r)"
  shows "self r = p\<lparr>config := (config p)\<lparr>ProjectName := ProjectName (config (self r)),
                                        Repo := Repo (config (self r))\<rparr>\<rparr>
       \<and> (ProjectName (config p) \<noteq> '''' \<longrightarrow> ProjectName (config (self r)) = ProjectName (config p))
       \<and> (Repo (config p) \<noteq> '''' \<longrightarrow> Repo (config (self r)) = Repo (config p))"
  using Validate_outcomes [OF assms]
  by (elim disjE exE conjE) (auto split: if_splits)

theorem Validate_frame_witness:
  "ProjectName (config exampleBadName) \<noteq> '''' \<and> Repo (config exampleBadName) \<noteq> ''''
   \<and> self (snd (Validate exampleWorld exampleBadName)) = exampleBadName
   \<and> self (snd (Validate exampleWorld exampleInit))
       = exampleInit\<lparr>config := (config exampleInit)\<lparr>ProjectName := ''myapp'',
                                                      Repo := ''example.com/myapp''\<rparr>\<rparr>"
  using run_example run_bad_name Validate_frame [OF run_example] Validate_frame [OF run_bad_name]
  by (simp add: exampleBadName_def exampleInit_def exampleConfig_def exampleResolved_def)

end
